theory Spec2Isabelle
  imports Main "HOL-Library.Char_ord" "HOL-Library.List_Lexorder"
begin

section \<open>The shared types (types.ts)\<close>

text \<open>
  \<^verbatim>\<open>export type AgentRole = 'planner' | 'architect' | 'coder' | 'reviewer' | 'ops';\<close>
  A union of string literals: a datatype, with \<open>role_string\<close> giving the literal each
  constructor stands for.
\<close>

datatype AgentRole = Planner | Architect | Coder | Reviewer | Ops

fun role_string :: "AgentRole \<Rightarrow> string" where
  "role_string Planner = ''planner''"
| "role_string Architect = ''architect''"
| "role_string Coder = ''coder''"
| "role_string Reviewer = ''reviewer''"
| "role_string Ops = ''ops''"

text \<open>Values of TypeScript's \<open>unknown\<close> are opaque payloads; they are carried as text.\<close>

type_synonym unknown = string

record Task =
  task_id :: string
  task_projectId :: string
  task_type :: string
  task_title :: string
  task_description :: string
  task_source :: "string option"
  task_metadata :: "(string \<rightharpoonup> unknown) option"

record AgentRef =
  ref_id :: string
  ref_role :: AgentRole

text \<open>\<open>artifactType\<close> is declared \<open>string\<close> in the interface: any tag is well typed.\<close>

record Artifact =
  art_id :: string
  art_taskId :: string
  artifactType :: string
  art_content :: unknown
  createdBy :: AgentRef
  createdAt :: string

text \<open>
  Of \<open>ProjectConfig\<close> the model keeps the identifier and the per-type workflow names; of
  \<open>ExecutionContext\<close> the project identifier and configuration. Tools, standards and the
  logger are collaborators that no function of the model reads.
\<close>

record ProjectConfig =
  pc_id :: string
  pc_workflows :: "(string \<rightharpoonup> string) option"

record ExecutionContext =
  ctx_projectId :: string
  ctx_projectConfig :: ProjectConfig

record AgentInput =
  in_task :: Task
  in_artifacts :: "Artifact list"
  in_context :: ExecutionContext

datatype NextAction = Continue | Handoff | Done | NeedsHuman

text \<open>\<^verbatim>\<open>handoffTo?: AgentRef | string\<close>\<close>

datatype HandoffTarget = ToAgent AgentRef | ToName string

record AgentOutput =
  newArtifacts :: "Artifact list"
  nextAction :: NextAction
  handoffTo :: "HandoffTarget option"

record AgentSpec =
  spec_name :: string
  spec_role :: string
  spec_description :: string
  spec_input :: "string \<rightharpoonup> unknown"
  spec_output :: unknown
  tools_available :: "string list option"
  validation_rules :: "string list option"
  handoff_criteria :: "unknown option"
  failure_handling :: "string list option"

record WorkflowHandoff =
  wh_sequence :: "string list option"
  wh_failure_loops :: "(string \<rightharpoonup> string) option"

record AgentsSpecsFile =
  agents :: "string \<rightharpoonup> AgentSpec"
  workflow_handoff :: "WorkflowHandoff option"

text \<open>A thrown JavaScript \<open>Error\<close> with its message; a rejected promise is the same value.\<close>

datatype error = Error string

section \<open>Agents (baseAgent.ts and the five concrete agents)\<close>

text \<open>
  An agent object carries its fields and its \<open>run\<close> method. \<open>run\<close> is \<open>async\<close>: the
  promise it returns either resolves to an output (\<open>Inr\<close>) or rejects (\<open>Inl\<close>).
\<close>

record Agent =
  agent_id :: string
  agent_role :: AgentRole
  agent_spec :: AgentSpec
  run :: "AgentInput \<Rightarrow> error + AgentOutput"

text \<open>\<^verbatim>\<open>protected makeRef(): AgentRef { return { id: this.id, role: this.role }; }\<close>\<close>

definition makeRef :: "Agent \<Rightarrow> AgentRef" where
  "makeRef a = \<lparr>ref_id = agent_id a, ref_role = agent_role a\<rparr>"

definition PlannerAgent_run :: "AgentInput \<Rightarrow> error + AgentOutput" where
  "PlannerAgent_run input =
     Inl (Error ''PlannerAgent.run is not implemented. Integrate with your LLM/orchestrator here.'')"

definition ArchitectAgent_run :: "AgentInput \<Rightarrow> error + AgentOutput" where
  "ArchitectAgent_run input =
     Inl (Error ''ArchitectAgent.run is not implemented. Integrate with your LLM/orchestrator here.'')"

definition CoderAgent_run :: "AgentInput \<Rightarrow> error + AgentOutput" where
  "CoderAgent_run input =
     Inl (Error ''CoderAgent.run is not implemented. Integrate with your LLM/orchestrator here.'')"

definition ReviewerAgent_run :: "AgentInput \<Rightarrow> error + AgentOutput" where
  "ReviewerAgent_run input =
     Inl (Error ''ReviewerAgent.run is not implemented. Integrate with your LLM/orchestrator here.'')"

definition OpsAgent_run :: "AgentInput \<Rightarrow> error + AgentOutput" where
  "OpsAgent_run input =
     Inl (Error ''OpsAgent.run is not implemented. Integrate with your LLM/orchestrator here.'')"

text \<open>The constructors: \<^verbatim>\<open>super('planner', 'planner' as AgentRole, spec)\<close> and its siblings.\<close>

definition PlannerAgent :: "AgentSpec \<Rightarrow> Agent" where
  "PlannerAgent spec =
     \<lparr>agent_id = ''planner'', agent_role = Planner, agent_spec = spec, run = PlannerAgent_run\<rparr>"

definition ArchitectAgent :: "AgentSpec \<Rightarrow> Agent" where
  "ArchitectAgent spec =
     \<lparr>agent_id = ''architect'', agent_role = Architect, agent_spec = spec, run = ArchitectAgent_run\<rparr>"

definition CoderAgent :: "AgentSpec \<Rightarrow> Agent" where
  "CoderAgent spec =
     \<lparr>agent_id = ''coder'', agent_role = Coder, agent_spec = spec, run = CoderAgent_run\<rparr>"

definition ReviewerAgent :: "AgentSpec \<Rightarrow> Agent" where
  "ReviewerAgent spec =
     \<lparr>agent_id = ''reviewer'', agent_role = Reviewer, agent_spec = spec, run = ReviewerAgent_run\<rparr>"

definition OpsAgent :: "AgentSpec \<Rightarrow> Agent" where
  "OpsAgent spec =
     \<lparr>agent_id = ''ops'', agent_role = Ops, agent_spec = spec, run = OpsAgent_run\<rparr>"

section \<open>The agent factory (index.ts)\<close>

text \<open>\<^verbatim>\<open>export type AgentMap = Record<AgentRole, BaseAgent>;\<close> One field per role.\<close>

record AgentMap =
  planner :: Agent
  architect :: Agent
  coder :: Agent
  reviewer :: Agent
  ops :: Agent

text \<open>Indexing the map by a role, \<open>map[role]\<close>.\<close>

fun agentAt :: "AgentMap \<Rightarrow> AgentRole \<Rightarrow> Agent" where
  "agentAt m Planner = planner m"
| "agentAt m Architect = architect m"
| "agentAt m Coder = coder m"
| "agentAt m Reviewer = reviewer m"
| "agentAt m Ops = ops m"

text \<open>
  \<open>createAgentsFromSpecs\<close>: the five lookups, the guard that throws when one of them is
  undefined (an \<open>AgentSpec\<close> object is never falsy), and the object literal. The default
  argument \<open>loadAgentSpecs()\<close> reads agent\_specs.json, which is an input here.
\<close>

definition createAgentsFromSpecs :: "AgentsSpecsFile \<Rightarrow> error + AgentMap" where
  "createAgentsFromSpecs specs =
     (case (agents specs ''planner'', agents specs ''architect'', agents specs ''coder'',
            agents specs ''reviewer'', agents specs ''ops'') of
        (Some plannerSpec, Some architectSpec, Some coderSpec, Some reviewerSpec, Some opsSpec) \<Rightarrow>
          Inr \<lparr>planner = PlannerAgent plannerSpec,
               architect = ArchitectAgent architectSpec,
               coder = CoderAgent coderSpec,
               reviewer = ReviewerAgent reviewerSpec,
               ops = OpsAgent opsSpec\<rparr>
      | _ \<Rightarrow> Inl (Error ''agent_specs.json is missing one or more required agent definitions.''))"





section \<open>The workflow schema and the orchestrator flow (framework template)\<close>

text \<open>
  \<^verbatim>\<open>NextStepDecision { nextStepId: string | null
  status: "in_progress" | "blocked" | "waiting_human" | "completed" }\<close>
\<close>

datatype DecisionStatus = D_in_progress | D_blocked | D_waiting_human | D_completed

record NextStepDecision =
  nextStepId :: "string option"
  decision_status :: DecisionStatus

record WorkflowStep =
  step_id :: string
  step_name :: string
  agentRole :: AgentRole
  inputSelector :: "Task \<Rightarrow> Artifact list \<Rightarrow> AgentInput"
  transition :: "AgentOutput \<Rightarrow> NextStepDecision"

record Workflow =
  wf_id :: string
  wf_name :: string
  applicableTaskTypes :: "string list"
  steps :: "WorkflowStep list"

text \<open>
  Modelled from the spec: the type of the run state, which the template reads
  (\<open>state.status\<close>, \<open>state.currentStepId\<close>) and never declares. The spec's RunState has a
  task identifier, a workflow identifier, the current step, a status out of five values, a
  history of (step, outcome, timestamp) entries and a retry counter per step.
\<close>

datatype RunStatus = InProgress | Blocked | WaitingHuman | Completed | Failed

datatype FaultKind = Timeout | InvalidOutput | ExecutionFault

datatype HandoffMismatch = NoStepForRole AgentRole | NoSuchTarget string | NoTarget

datatype Outcome =
    Advanced
  | Repeated
  | Finished
  | Halted RunStatus
  | FaultRetried FaultKind
  | RetryBudgetExceeded "FaultKind option"
  | UnknownHandoffTarget HandoffMismatch
  | InvalidDecision

record HistoryEntry =
  h_stepId :: string
  h_outcome :: Outcome
  h_time :: nat

record RunState =
  rs_taskId :: string
  rs_workflowId :: string
  currentStepId :: string
  status :: RunStatus
  history :: "HistoryEntry list"
  retries :: "string \<Rightarrow> nat"

text \<open>
  The helpers \<open>handleTask\<close> calls and the template leaves as extension points are
  parameters of the model. A helper that reads or writes a store takes and returns it:
  \<open>selectArtifactsForStep\<close> and \<open>persistArtifacts\<close> the persisted artifacts.
\<close>

record Collaborators =
  loadTask :: "string \<Rightarrow> error + Task"
  loadProjectConfig :: "string \<Rightarrow> error + ProjectConfig"
  selectWorkflow :: "Task \<Rightarrow> ProjectConfig \<Rightarrow> error + Workflow"
  loadOrInitWorkflowState :: "string \<Rightarrow> Workflow \<Rightarrow> error + RunState"
  selectArtifactsForStep :: "WorkflowStep \<Rightarrow> Task \<Rightarrow> Artifact list \<Rightarrow> Artifact list"
  getAgentByRole :: "AgentRole \<Rightarrow> Agent"
  buildExecutionContext :: "ProjectConfig \<Rightarrow> ExecutionContext"
  persistArtifacts :: "Artifact list \<Rightarrow> Artifact list \<Rightarrow> error + Artifact list"

text \<open>The run status a decision's status stands for.\<close>

fun run_status :: "DecisionStatus \<Rightarrow> RunStatus" where
  "run_status D_in_progress = InProgress"
| "run_status D_blocked = Blocked"
| "run_status D_waiting_human = WaitingHuman"
| "run_status D_completed = Completed"

text \<open>
  Modelled from the spec: \<open>updateState(taskId, decision)\<close>, which \<open>handleTask\<close> calls and
  the sources do not define. It takes the run state of the task, which is the \<open>state\<close> the
  loop tests again, and returns it persisted with the decision's status (steps 6 and 7 of
  the transition algorithm: "persist RunState with that status") and with the current
  step moved to the step the decision names, if it names one (step 9). The template's
  steps carry no retry maximum and its decisions no time, so the counter of step 8 and
  the history are left as they are.
\<close>

definition updateState :: "RunState \<Rightarrow> NextStepDecision \<Rightarrow> RunState" where
  "updateState s d =
     s\<lparr>currentStepId := (case nextStepId d of None \<Rightarrow> currentStepId s | Some n \<Rightarrow> n),
       status := run_status (decision_status d)\<rparr>"

text \<open>
  What the loop reads and writes: the run state, the persisted artifacts, and a log of the
  worker invocations made and the transition decisions applied, in order.
\<close>

record World =
  w_state :: RunState
  w_artifacts :: "Artifact list"
  w_invocations :: "AgentInput list"
  w_decisions :: "NextStepDecision list"

text \<open>\<^verbatim>\<open>while state.status not in ["completed", "waiting_human"]:\<close>\<close>

definition loop_guard :: "RunState \<Rightarrow> bool" where
  "loop_guard st = (status st \<notin> set [Completed, WaitingHuman])"

text \<open>
  The loop body, statement by statement. \<open>workflow.steps[state.currentStepId]\<close> finds the
  step by its identifier; a missing step, a rejected \<open>agent.run\<close> and a failing helper end
  the flow with the error.
\<close>

definition loop_body ::
  "Collaborators \<Rightarrow> Task \<Rightarrow> ProjectConfig \<Rightarrow> Workflow \<Rightarrow> World \<Rightarrow> error + World" where
  "loop_body c task projectConfig workflow w =
     (case find (\<lambda>s. step_id s = currentStepId (w_state w)) (steps workflow) of
        None \<Rightarrow> Inl (Error ''no such step'')
      | Some step \<Rightarrow>
          (let inputArtifacts = selectArtifactsForStep c step task (w_artifacts w);
               agent = getAgentByRole c (agentRole step);
               agentInput = \<lparr>in_task = task, in_artifacts = inputArtifacts,
                              in_context = buildExecutionContext c projectConfig\<rparr>
           in case run agent agentInput of
                Inl e \<Rightarrow> Inl e
              | Inr output \<Rightarrow>
                  (case persistArtifacts c (w_artifacts w) (newArtifacts output) of
                     Inl e \<Rightarrow> Inl e
                   | Inr stored \<Rightarrow>
                       (let decision = transition step output
                        in Inr \<lparr>w_state = updateState (w_state w) decision,
                                w_artifacts = stored,
                                w_invocations = w_invocations w @ [agentInput],
                                w_decisions = w_decisions w @ [decision]\<rparr>))))"

text \<open>
  The \<open>while\<close> loop, with fuel: \<open>None\<close> when the fuel runs out before the guard fails. The
  guard is tested first, so a state that fails it is returned with any fuel.
\<close>

fun handleTask_loop ::
  "Collaborators \<Rightarrow> Task \<Rightarrow> ProjectConfig \<Rightarrow> Workflow \<Rightarrow> nat \<Rightarrow> World \<Rightarrow> (error + World) option" where
  "handleTask_loop c task projectConfig workflow 0 w =
     (if loop_guard (w_state w) then None else Some (Inr w))"
| "handleTask_loop c task projectConfig workflow (Suc fuel) w =
     (if loop_guard (w_state w)
      then (case loop_body c task projectConfig workflow w of
              Inl e \<Rightarrow> Some (Inl e)
            | Inr w' \<Rightarrow> handleTask_loop c task projectConfig workflow fuel w')
      else Some (Inr w))"

text \<open>
  \<open>handleTask(taskId)\<close>: the four loads, then the loop. The result is the final world, whose
  \<open>w_state\<close> is the state the flow returns.
\<close>

definition handleTask ::
  "Collaborators \<Rightarrow> nat \<Rightarrow> Artifact list \<Rightarrow> string \<Rightarrow> (error + World) option" where
  "handleTask c fuel stored taskId =
     (case loadTask c taskId of
        Inl e \<Rightarrow> Some (Inl e)
      | Inr task \<Rightarrow>
          (case loadProjectConfig c (task_projectId task) of
             Inl e \<Rightarrow> Some (Inl e)
           | Inr projectConfig \<Rightarrow>
               (case selectWorkflow c task projectConfig of
                  Inl e \<Rightarrow> Some (Inl e)
                | Inr workflow \<Rightarrow>
                    (case loadOrInitWorkflowState c taskId workflow of
                       Inl e \<Rightarrow> Some (Inl e)
                     | Inr state \<Rightarrow>
                         handleTask_loop c task projectConfig workflow fuel
                           \<lparr>w_state = state, w_artifacts = stored,
                            w_invocations = [], w_decisions = []\<rparr>))))"

text \<open>The artifact type tags the template lists for \<open>Artifact.type\<close>, in its order.\<close>

definition template_artifact_types :: "string list" where
  "template_artifact_types =
     [''spec'', ''design'', ''plan'', ''patch'', ''pr'', ''review'', ''deployment'', ''log'', ''note'']"

text \<open>The closed set the specification states, in its words, for comparison.\<close>

definition spec_artifact_types :: "string list" where
  "spec_artifact_types =
     [''spec'', ''design'', ''patch'', ''review'', ''deployment'', ''note'', ''log'']"

section \<open>The workflow engine of the specification\<close>

text \<open>
  Modelled from the spec: the workflow definition and its steps (data model), with the
  per-step retry maximum the engine's step 8 reads. The sources hold the template's schema
  and flow only; no engine, router or store is implemented in them.
\<close>

record Decision =
  d_next :: "string option"
  d_status :: RunStatus

record StepDef =
  sd_id :: string
  sd_name :: string
  sd_role :: AgentRole
  sd_selection :: "string list"
  sd_transition :: "AgentOutput \<Rightarrow> Decision"
  sd_maxRetries :: nat

record WorkflowDefinition =
  wd_id :: string
  wd_taskTypes :: "string list"
  wd_steps :: "StepDef list"

datatype EngineError = NoMatchingWorkflow | ConcurrentRunConflict | CorruptRunState | RebindConflict

text \<open>
  Modelled from the spec: the dispatcher's contract \<open>dispatch(role, input, timeout) -> Output | Fault\<close>.
  The engine sees a worker through this result only.
\<close>

datatype DispatchResult = Output AgentOutput | Fault FaultKind

text \<open>Modelled from the spec: step 1, the lookup of the current step in the bound definition.\<close>

definition lookup_step :: "WorkflowDefinition \<Rightarrow> string \<Rightarrow> StepDef option" where
  "lookup_step wd sid = find (\<lambda>st. sd_id st = sid) (wd_steps wd)"

text \<open>Modelled from the spec: history is append-only; an entry names the step that ran.\<close>

definition record_entry :: "nat \<Rightarrow> Outcome \<Rightarrow> RunState \<Rightarrow> RunState" where
  "record_entry now oc s =
     s\<lparr>history := history s @ [\<lparr>h_stepId = currentStepId s, h_outcome = oc, h_time = now\<rparr>]\<rparr>"

text \<open>
  Modelled from the spec: step 8 and the failure semantics, which share one counter. The
  counter is incremented; if it would now exceed the step's maximum it stays at the maximum
  (scenario B: "retry counter == 2 (capped)") and the status is forced to waiting\_human,
  with the fault, if any, recorded in the history.
\<close>

definition retry_or_escalate :: "StepDef \<Rightarrow> nat \<Rightarrow> FaultKind option \<Rightarrow> RunState \<Rightarrow> RunState" where
  "retry_or_escalate st now flt s =
     (let n = retries s (sd_id st) + 1
      in if n > sd_maxRetries st
         then record_entry now (RetryBudgetExceeded flt) (s\<lparr>status := WaitingHuman\<rparr>)
         else record_entry now (case flt of None \<Rightarrow> Repeated | Some k \<Rightarrow> FaultRetried k)
                (s\<lparr>status := InProgress, retries := (retries s)(sd_id st := n)\<rparr>))"

text \<open>
  Modelled from the spec: steps 6 to 9 of the transition algorithm, in their order. A
  decision of failed with no next step is the explicit terminal decision of the failure
  semantics. The spec does not say what a decision that continues with no next step, or
  with a step the definition lacks, leads to; the model ends such an iteration as blocked
  with an entry saying so, which keeps \<open>currentStepId\<close> inside the definition.
\<close>

definition apply_decision ::
  "WorkflowDefinition \<Rightarrow> StepDef \<Rightarrow> nat \<Rightarrow> Decision \<Rightarrow> RunState \<Rightarrow> RunState" where
  "apply_decision wd st now d s =
     (if d_status d = WaitingHuman \<or> d_status d = Blocked
      then record_entry now (Halted (d_status d)) (s\<lparr>status := d_status d\<rparr>)
      else if d_next d = None \<and> d_status d = Completed
      then record_entry now Finished (s\<lparr>status := Completed\<rparr>)
      else if d_next d = None \<and> d_status d = Failed
      then record_entry now (Halted Failed) (s\<lparr>status := Failed\<rparr>)
      else if d_next d = Some (currentStepId s)
      then retry_or_escalate st now None s
      else (case d_next d of
              None \<Rightarrow> record_entry now InvalidDecision (s\<lparr>status := Blocked\<rparr>)
            | Some nxt \<Rightarrow>
                (case lookup_step wd nxt of
                   None \<Rightarrow> record_entry now InvalidDecision (s\<lparr>status := Blocked\<rparr>)
                 | Some target \<Rightarrow>
                     (record_entry now Advanced s)\<lparr>currentStepId := nxt, status := InProgress\<rparr>)))"

text \<open>
  Modelled from the spec: the role a handoff target asks for. \<open>handoffTo\<close> is an
  \<open>AgentRef\<close> or a string (types.ts); the template reads the string as a step
  identifier. An \<open>AgentRef\<close> asks for its role; a string asks for the role of the step it
  names or, when it names no step, for the role whose name it is; any other string asks
  for nothing the definition knows.
\<close>

definition handoff_role :: "WorkflowDefinition \<Rightarrow> HandoffTarget \<Rightarrow> AgentRole option" where
  "handoff_role wd target =
     (case target of
        ToAgent ref \<Rightarrow> Some (ref_role ref)
      | ToName n \<Rightarrow>
          (case lookup_step wd n of
             Some named \<Rightarrow> Some (sd_role named)
           | None \<Rightarrow> find (\<lambda>r. role_string r = n) [Planner, Architect, Coder, Reviewer, Ops]))"

text \<open>
  Modelled from the spec: the edge-case policy for handoffs. A handoff to a role other
  than the step's own is permitted only if a step of the definition has that role. Every
  other handoff is a mismatch to report: one to a role no step has, one whose string names
  neither a step nor a role, and one that names no target at all.
\<close>

definition unknown_handoff ::
  "WorkflowDefinition \<Rightarrow> StepDef \<Rightarrow> AgentOutput \<Rightarrow> HandoffMismatch option" where
  "unknown_handoff wd st out =
     (if nextAction out \<noteq> Handoff then None
      else (case handoffTo out of
              None \<Rightarrow> Some NoTarget
            | Some target \<Rightarrow>
                (case handoff_role wd target of
                   None \<Rightarrow> Some (case target of ToName n \<Rightarrow> NoSuchTarget n
                                                | ToAgent ref \<Rightarrow> NoStepForRole (ref_role ref))
                 | Some r \<Rightarrow>
                     (if r \<noteq> sd_role st \<and> r \<notin> set (map sd_role (wd_steps wd))
                      then Some (NoStepForRole r) else None))))"

text \<open>
  Modelled from the spec: one iteration of the engine on the result of the dispatch
  (steps 1, 5 to 9, the handoff policy and the failure semantics). Steps 2 to 4, the
  selection, the dispatch and the append, come before: their outcome is the dispatch
  result, and the append is the artifact store's. A current step that the definition lacks
  is an invalid stored state, the one fatal condition.
\<close>

definition engine_step ::
  "WorkflowDefinition \<Rightarrow> nat \<Rightarrow> DispatchResult \<Rightarrow> RunState \<Rightarrow> EngineError + RunState" where
  "engine_step wd now res s =
     (case lookup_step wd (currentStepId s) of
        None \<Rightarrow> Inl CorruptRunState
      | Some st \<Rightarrow>
          (case res of
             Fault k \<Rightarrow> Inr (retry_or_escalate st now (Some k) s)
           | Output out \<Rightarrow>
               (case unknown_handoff wd st out of
                  Some r \<Rightarrow> Inr (record_entry now (UnknownHandoffTarget r) (s\<lparr>status := Blocked\<rparr>))
                | None \<Rightarrow> Inr (apply_decision wd st now (sd_transition st out) s))))"

text \<open>
  The loop of \<open>handleTask\<close>, with its guard, around the iteration of the engine: it goes
  on until the status is completed or waiting\_human, and on no other status does it stop.
  The environment is the list of dispatch results the workers give, each with its time;
  one is consumed per iteration. The result is the state reached and the results left
  unconsumed.
\<close>

fun run_engine ::
  "WorkflowDefinition \<Rightarrow> (nat \<times> DispatchResult) list \<Rightarrow> RunState
     \<Rightarrow> EngineError + (RunState \<times> (nat \<times> DispatchResult) list)" where
  "run_engine wd [] s = Inr (s, [])"
| "run_engine wd (ev # evs) s =
     (if \<not> loop_guard s then Inr (s, ev # evs)
      else (case engine_step wd (fst ev) (snd ev) s of
              Inl e \<Rightarrow> Inl e
            | Inr s' \<Rightarrow> run_engine wd evs s'))"



section \<open>The task router of the specification\<close>

text \<open>
  Modelled from the spec: \<open>selectWorkflow(task, availableDefinitions)\<close>. The definitions
  whose task types contain the task's type are kept; the project's preferred identifier
  for that type wins when it names one of them; otherwise the match with the least
  identifier is picked.
\<close>

definition matching :: "Task \<Rightarrow> WorkflowDefinition list \<Rightarrow> WorkflowDefinition list" where
  "matching task defs = filter (\<lambda>d. task_type task \<in> set (wd_taskTypes d)) defs"

fun least_id :: "WorkflowDefinition \<Rightarrow> WorkflowDefinition list \<Rightarrow> WorkflowDefinition" where
  "least_id d [] = d"
| "least_id d (x # xs) = least_id (if wd_id x < wd_id d then x else d) xs"

definition selectWorkflow_spec ::
  "(string \<rightharpoonup> string) \<Rightarrow> Task \<Rightarrow> WorkflowDefinition list \<Rightarrow> EngineError + WorkflowDefinition" where
  "selectWorkflow_spec preferred task defs =
     (case matching task defs of
        [] \<Rightarrow> Inl NoMatchingWorkflow
      | m # ms \<Rightarrow>
          (case preferred (task_type task) of
             None \<Rightarrow> Inr (least_id m ms)
           | Some wid \<Rightarrow>
               (case find (\<lambda>d. wd_id d = wid) (m # ms) of
                  Some d \<Rightarrow> Inr d
                | None \<Rightarrow> Inr (least_id m ms))))"

section \<open>The run state store and the orchestrator loop of the specification\<close>

text \<open>
  Modelled from the spec: \<open>load\<close>, \<open>initOrLoad\<close> and \<open>save\<close> over one record per task. A
  fresh run starts in\_progress at the first step with an empty history and all counters
  at zero; a stored run bound to another workflow is never re-bound. A definition with no
  step has none to start at, and no run is created for it.
\<close>

type_synonym RunStore = "string \<rightharpoonup> RunState"

definition load :: "string \<Rightarrow> RunStore \<Rightarrow> RunState option" where
  "load taskId store = store taskId"

definition save :: "RunState \<Rightarrow> RunStore \<Rightarrow> RunStore" where
  "save s store = store(rs_taskId s \<mapsto> s)"

definition initOrLoad ::
  "string \<Rightarrow> WorkflowDefinition \<Rightarrow> RunStore \<Rightarrow> EngineError + (RunState \<times> RunStore)" where
  "initOrLoad taskId wd store =
     (case store taskId of
        Some s \<Rightarrow> (if rs_workflowId s = wd_id wd then Inr (s, store) else Inl RebindConflict)
      | None \<Rightarrow>
          (case wd_steps wd of
             [] \<Rightarrow> Inl CorruptRunState
           | st # rest \<Rightarrow>
               (let s = \<lparr>rs_taskId = taskId, rs_workflowId = wd_id wd, currentStepId = sd_id st,
                         status = InProgress, history = [], retries = (\<lambda>x. 0)\<rparr>
                in Inr (s, save s store))))"

text \<open>
  Modelled from the spec: the orchestrator loop. It resolves the workflow through the
  router, loads or creates the run, drives the engine and saves the state reached. The
  result is the outcome and the store afterwards.
\<close>

definition orchestrate ::
  "(string \<rightharpoonup> string) \<Rightarrow> WorkflowDefinition list \<Rightarrow> (nat \<times> DispatchResult) list \<Rightarrow> Task \<Rightarrow> RunStore
     \<Rightarrow> (EngineError + RunState) \<times> RunStore" where
  "orchestrate preferred defs evs task store =
     (case selectWorkflow_spec preferred task defs of
        Inl e \<Rightarrow> (Inl e, store)
      | Inr wd \<Rightarrow>
          (case initOrLoad (task_id task) wd store of
             Inl e \<Rightarrow> (Inl e, store)
           | Inr (s, store1) \<Rightarrow>
               (case run_engine wd evs s of
                  Inl e \<Rightarrow> (Inl e, store1)
                | Inr (s', left) \<Rightarrow> (Inr s', save s' store1))))"

section \<open>The artifact store of the specification\<close>

text \<open>
  Modelled from the spec: \<open>append\<close>, \<open>listByTask\<close> and \<open>latestOfType\<close>. The store is the
  sequence of artifacts in arrival order. An append writes its artifacts one after the other
  into a staging sequence; a write fails when the artifact belongs to another task or when
  the medium refuses it (\<open>writable\<close>, which simulates a fault). The staged sequence is
  committed only when every write succeeded.
\<close>

type_synonym ArtifactStore = "Artifact list"

datatype StoreError = AppendFailed nat

fun stage_writes ::
  "(Artifact \<Rightarrow> bool) \<Rightarrow> string \<Rightarrow> Artifact list \<Rightarrow> Artifact list \<Rightarrow> StoreError + Artifact list" where
  "stage_writes writable taskId staged [] = Inr staged"
| "stage_writes writable taskId staged (a # rest) =
     (if art_taskId a = taskId \<and> writable a
      then stage_writes writable taskId (staged @ [a]) rest
      else Inl (AppendFailed (length staged)))"

definition store_append ::
  "(Artifact \<Rightarrow> bool) \<Rightarrow> string \<Rightarrow> Artifact list \<Rightarrow> ArtifactStore \<Rightarrow> (StoreError + unit) \<times> ArtifactStore" where
  "store_append writable taskId arts store =
     (case stage_writes writable taskId [] arts of
        Inl e \<Rightarrow> (Inl e, store)
      | Inr staged \<Rightarrow> (Inr (), store @ staged))"

definition listByTask :: "string \<Rightarrow> ArtifactStore \<Rightarrow> Artifact list" where
  "listByTask taskId store = sort_key createdAt (filter (\<lambda>a. art_taskId a = taskId) store)"

text \<open>
  Modelled from the spec: the tie-break of \<open>latestOfType\<close>. The later of two artifacts has
  the later timestamp and, on a tie, the lesser identifier.
\<close>

definition later_of :: "Artifact \<Rightarrow> Artifact \<Rightarrow> Artifact" where
  "later_of a b =
     (if createdAt a < createdAt b \<or> (createdAt a = createdAt b \<and> art_id b < art_id a) then b else a)"

definition latestOfType :: "string \<Rightarrow> string \<Rightarrow> ArtifactStore \<Rightarrow> Artifact option" where
  "latestOfType taskId ty store =
     (case filter (\<lambda>a. artifactType a = ty) (listByTask taskId store) of
        [] \<Rightarrow> None
      | a # rest \<Rightarrow> Some (fold later_of rest a))"

section \<open>Concrete inputs\<close>

subsection \<open>For the agent factory\<close>

definition demo_spec :: "string \<Rightarrow> AgentSpec" where
  "demo_spec r = \<lparr>spec_name = r, spec_role = r, spec_description = ''a worker'',
     spec_input = Map.empty, spec_output = ''artifact'', tools_available = None,
     validation_rules = None, handoff_criteria = None, failure_handling = None\<rparr>"

definition demo_specs :: AgentsSpecsFile where
  "demo_specs =
     \<lparr>agents = [''planner'' \<mapsto> demo_spec ''planner'', ''architect'' \<mapsto> demo_spec ''architect'',
                ''coder'' \<mapsto> demo_spec ''coder'', ''reviewer'' \<mapsto> demo_spec ''reviewer'',
                ''ops'' \<mapsto> demo_spec ''ops''],
      workflow_handoff = None\<rparr>"


definition demo_registry :: AgentMap where
  "demo_registry =
     \<lparr>planner = PlannerAgent (demo_spec ''planner''),
      architect = ArchitectAgent (demo_spec ''architect''),
      coder = CoderAgent (demo_spec ''coder''),
      reviewer = ReviewerAgent (demo_spec ''reviewer''),
      ops = OpsAgent (demo_spec ''ops'')\<rparr>"

subsection \<open>For the orchestrator flow\<close>

definition demo_task :: Task where
  "demo_task = \<lparr>task_id = ''T-1'', task_projectId = ''my-web-app'', task_type = ''bugfix'',
     task_title = ''Fix login'', task_description = ''Login fails'', task_source = None,
     task_metadata = None\<rparr>"

definition demo_config :: ProjectConfig where
  "demo_config = \<lparr>pc_id = ''my-web-app'', pc_workflows = None\<rparr>"

definition demo_review :: Artifact where
  "demo_review = \<lparr>art_id = ''A-1'', art_taskId = ''T-1'', artifactType = ''review'',
     art_content = ''request_changes'', createdBy = \<lparr>ref_id = ''reviewer'', ref_role = Reviewer\<rparr>,
     createdAt = ''2025-01-01T00:00:00Z''\<rparr>"

text \<open>An artifact tagged \<open>plan\<close>, one of the template's tags.\<close>

definition plan_artifact :: Artifact where
  "plan_artifact = \<lparr>art_id = ''A-2'', art_taskId = ''T-1'', artifactType = ''plan'',
     art_content = ''steps'', createdBy = \<lparr>ref_id = ''planner'', ref_role = Planner\<rparr>,
     createdAt = ''2025-01-02T00:00:00Z''\<rparr>"

text \<open>
  A worker that implements the \<open>Agent\<close> interface: with no artifact to read it produces a
  review and asks for a human; once a review exists it reports done.
\<close>

definition demo_agent :: Agent where
  "demo_agent = \<lparr>agent_id = ''reviewer'', agent_role = Reviewer, agent_spec = demo_spec ''reviewer'',
     run = (\<lambda>i. if in_artifacts i = []
                  then Inr \<lparr>newArtifacts = [demo_review], nextAction = NeedsHuman, handoffTo = None\<rparr>
                  else Inr \<lparr>newArtifacts = [], nextAction = Done, handoffTo = None\<rparr>)\<rparr>"

text \<open>
  A one-step workflow. Its transition decides completed on \<open>done\<close>; otherwise it names the
  same step again with the status \<open>onHuman\<close>.
\<close>

definition demo_step :: "DecisionStatus \<Rightarrow> WorkflowStep" where
  "demo_step onHuman = \<lparr>step_id = ''review'', step_name = ''Review'', agentRole = Reviewer,
     inputSelector = (\<lambda>t arts. \<lparr>in_task = t, in_artifacts = arts,
        in_context = \<lparr>ctx_projectId = task_projectId t, ctx_projectConfig = demo_config\<rparr>\<rparr>),
     transition = (\<lambda>out. if nextAction out = Done
                           then \<lparr>nextStepId = None, decision_status = D_completed\<rparr>
                           else \<lparr>nextStepId = Some ''review'', decision_status = onHuman\<rparr>)\<rparr>"

definition demo_flow :: "DecisionStatus \<Rightarrow> Workflow" where
  "demo_flow onHuman = \<lparr>wf_id = ''review-only'', wf_name = ''Review only'',
     applicableTaskTypes = [''bugfix''], steps = [demo_step onHuman]\<rparr>"

definition demo_state :: "RunStatus \<Rightarrow> RunState" where
  "demo_state st = \<lparr>rs_taskId = ''T-1'', rs_workflowId = ''review-only'', currentStepId = ''review'',
     status = st, history = [], retries = (\<lambda>x. 0)\<rparr>"

definition demo_collaborators :: "DecisionStatus \<Rightarrow> RunStatus \<Rightarrow> Collaborators" where
  "demo_collaborators onHuman initial =
     \<lparr>loadTask = (\<lambda>tid. if tid = ''T-1'' then Inr demo_task else Inl (Error ''no such task'')),
      loadProjectConfig = (\<lambda>pid. Inr demo_config),
      selectWorkflow = (\<lambda>t pc. Inr (demo_flow onHuman)),
      loadOrInitWorkflowState = (\<lambda>tid flow. Inr (demo_state initial)),
      selectArtifactsForStep = (\<lambda>step t stored. stored),
      getAgentByRole = (\<lambda>r. demo_agent),
      buildExecutionContext = (\<lambda>pc. \<lparr>ctx_projectId = pc_id pc, ctx_projectConfig = pc\<rparr>),
      persistArtifacts = (\<lambda>stored new. Inr (stored @ new))\<rparr>"

definition demo_world :: "RunStatus \<Rightarrow> Artifact list \<Rightarrow> World" where
  "demo_world st stored =
     \<lparr>w_state = demo_state st, w_artifacts = stored, w_invocations = [], w_decisions = []\<rparr>"

text \<open>The world after one iteration, from a stored review, whose decision carried completed.\<close>

definition done_world :: World where
  "done_world = \<lparr>w_state = demo_state Completed, w_artifacts = [demo_review],
     w_invocations = [\<lparr>in_task = demo_task, in_artifacts = [demo_review],
        in_context = \<lparr>ctx_projectId = ''my-web-app'', ctx_projectConfig = demo_config\<rparr>\<rparr>],
     w_decisions = [\<lparr>nextStepId = None, decision_status = D_completed\<rparr>]\<rparr>"

text \<open>The world after one iteration whose decision carried waiting\_human.\<close>

definition held_world :: World where
  "held_world = \<lparr>w_state = demo_state WaitingHuman, w_artifacts = [demo_review],
     w_invocations = [\<lparr>in_task = demo_task, in_artifacts = [],
        in_context = \<lparr>ctx_projectId = ''my-web-app'', ctx_projectConfig = demo_config\<rparr>\<rparr>],
     w_decisions = [\<lparr>nextStepId = Some ''review'', decision_status = D_waiting_human\<rparr>]\<rparr>"

subsection \<open>For the engine, the router and the stores: the scenarios of the specification\<close>

definition worker_says :: "NextAction \<Rightarrow> HandoffTarget option \<Rightarrow> AgentOutput" where
  "worker_says act target = \<lparr>newArtifacts = [], nextAction = act, handoffTo = target\<rparr>"

definition scenario_transition :: "string \<Rightarrow> string option \<Rightarrow> AgentOutput \<Rightarrow> Decision" where
  "scenario_transition self nxt out =
     (case nextAction out of
        Continue \<Rightarrow> \<lparr>d_next = nxt, d_status = InProgress\<rparr>
      | Done \<Rightarrow> \<lparr>d_next = None, d_status = Completed\<rparr>
      | NeedsHuman \<Rightarrow>
          (if ''abandon'' \<in> set (map art_content (newArtifacts out))
           then \<lparr>d_next = None, d_status = Failed\<rparr>
           else \<lparr>d_next = Some self, d_status = WaitingHuman\<rparr>)
      | Handoff \<Rightarrow> \<lparr>d_next = Some self, d_status = InProgress\<rparr>)"

text \<open>A worker that gives up: it needs a human and leaves a note saying abandon.\<close>

definition gives_up :: AgentOutput where
  "gives_up =
     \<lparr>newArtifacts = [\<lparr>art_id = ''A-3'', art_taskId = ''T-1'', artifactType = ''note'',
          art_content = ''abandon'', createdBy = \<lparr>ref_id = ''coder'', ref_role = Coder\<rparr>,
          createdAt = ''2025-01-03T00:00:00Z''\<rparr>],
      nextAction = NeedsHuman, handoffTo = None\<rparr>"

definition scenario_step :: "string \<Rightarrow> AgentRole \<Rightarrow> string option \<Rightarrow> StepDef" where
  "scenario_step sid role nxt =
     \<lparr>sd_id = sid, sd_name = sid, sd_role = role, sd_selection = [],
      sd_transition = scenario_transition sid nxt, sd_maxRetries = 2\<rparr>"

text \<open>\<open>bugfix-fast-flow\<close>: Plan, Implement, Review, each with a retry maximum of 2.\<close>

definition bugfix_fast_flow :: WorkflowDefinition where
  "bugfix_fast_flow =
     \<lparr>wd_id = ''bugfix-fast-flow'', wd_taskTypes = [''bugfix'', ''feature''],
      wd_steps = [scenario_step ''plan'' Planner (Some ''implement''),
                  scenario_step ''implement'' Coder (Some ''review''),
                  scenario_step ''review'' Reviewer None]\<rparr>"

definition scenario_state :: "string \<Rightarrow> RunState" where
  "scenario_state sid = \<lparr>rs_taskId = ''T-1'', rs_workflowId = ''bugfix-fast-flow'',
     currentStepId = sid, status = InProgress, history = [], retries = (\<lambda>x. 0)\<rparr>"

text \<open>Scenario B: the run at Implement after two retried faults, and after the third fault.\<close>

definition exhausted_state :: RunState where
  "exhausted_state = \<lparr>rs_taskId = ''T-1'', rs_workflowId = ''bugfix-fast-flow'',
     currentStepId = ''implement'', status = InProgress,
     history = [\<lparr>h_stepId = ''implement'', h_outcome = FaultRetried Timeout, h_time = 1\<rparr>,
                \<lparr>h_stepId = ''implement'', h_outcome = FaultRetried Timeout, h_time = 2\<rparr>],
     retries = (\<lambda>x. 0)(''implement'' := 2)\<rparr>"

definition escalated_state :: RunState where
  "escalated_state = \<lparr>rs_taskId = ''T-1'', rs_workflowId = ''bugfix-fast-flow'',
     currentStepId = ''implement'', status = WaitingHuman,
     history = [\<lparr>h_stepId = ''implement'', h_outcome = FaultRetried Timeout, h_time = 1\<rparr>,
                \<lparr>h_stepId = ''implement'', h_outcome = FaultRetried Timeout, h_time = 2\<rparr>,
                \<lparr>h_stepId = ''implement'', h_outcome = RetryBudgetExceeded (Some Timeout),
                 h_time = 3\<rparr>],
     retries = (\<lambda>x. 0)(''implement'' := 2)\<rparr>"

text \<open>A fresh run at Plan after one retried fault.\<close>

definition retried_state :: RunState where
  "retried_state = \<lparr>rs_taskId = ''T-1'', rs_workflowId = ''bugfix-fast-flow'',
     currentStepId = ''plan'', status = InProgress,
     history = [\<lparr>h_stepId = ''plan'', h_outcome = FaultRetried InvalidOutput, h_time = 1\<rparr>],
     retries = (\<lambda>x. 0)(''plan'' := 1)\<rparr>"

definition docs_task :: Task where
  "docs_task = \<lparr>task_id = ''T-2'', task_projectId = ''my-web-app'', task_type = ''docs'',
     task_title = ''Write guide'', task_description = ''A guide'', task_source = None,
     task_metadata = None\<rparr>"

text \<open>A medium that refuses the artifact \<open>A-2\<close>.\<close>

definition refuses_plan :: "Artifact \<Rightarrow> bool" where
  "refuses_plan a = (art_id a \<noteq> ''A-2'')"

section \<open>Properties of the agents and of the factory\<close>

lemmas shipped_defs = PlannerAgent_def ArchitectAgent_def CoderAgent_def ReviewerAgent_def
  OpsAgent_def PlannerAgent_run_def ArchitectAgent_run_def CoderAgent_run_def
  ReviewerAgent_run_def OpsAgent_run_def

lemma createAgentsFromSpecs_Inr:
  "createAgentsFromSpecs specs = Inr m \<longleftrightarrow>
     (\<exists>p a c r q. agents specs ''planner'' = Some p \<and> agents specs ''architect'' = Some a \<and>
        agents specs ''coder'' = Some c \<and> agents specs ''reviewer'' = Some r \<and>
        agents specs ''ops'' = Some q \<and>
        m = \<lparr>planner = PlannerAgent p, architect = ArchitectAgent a, coder = CoderAgent c,
             reviewer = ReviewerAgent r, ops = OpsAgent q\<rparr>)"
  by (auto simp: createAgentsFromSpecs_def split: option.splits)



lemma built_agent:
  assumes "createAgentsFromSpecs specs = Inr m"
  shows "agent_id (agentAt m r) = role_string r"
    and "agent_role (agentAt m r) = r"
    and "agents specs (role_string r) = Some (agent_spec (agentAt m r))"
    and "isl (run (agentAt m r) i)"
  using assms unfolding createAgentsFromSpecs_Inr
  by (cases r; auto simp: shipped_defs)+

lemma demo_registry_built: "createAgentsFromSpecs demo_specs = Inr demo_registry"
  by (simp add: createAgentsFromSpecs_def demo_specs_def demo_registry_def)

text \<open>
  Claim C4. For every input, \<open>run\<close> of each shipped agent (planner, architect, coder,
  reviewer, ops) rejects with its "not implemented" error and returns no output. So an
  invocation through a registry the factory built never succeeds, and an iteration of the
  orchestrator flow that dispatches to such a registry ends with an error: it appends no
  artifact and applies no transition.
\<close>

theorem shipped_agents_never_return:
  "run (PlannerAgent spec) input =
     Inl (Error ''PlannerAgent.run is not implemented. Integrate with your LLM/orchestrator here.'')
   \<and> run (ArchitectAgent spec) input =
     Inl (Error ''ArchitectAgent.run is not implemented. Integrate with your LLM/orchestrator here.'')
   \<and> run (CoderAgent spec) input =
     Inl (Error ''CoderAgent.run is not implemented. Integrate with your LLM/orchestrator here.'')
   \<and> run (ReviewerAgent spec) input =
     Inl (Error ''ReviewerAgent.run is not implemented. Integrate with your LLM/orchestrator here.'')
   \<and> run (OpsAgent spec) input =
     Inl (Error ''OpsAgent.run is not implemented. Integrate with your LLM/orchestrator here.'')
   \<and> (createAgentsFromSpecs specs = Inr m \<longrightarrow> isl (run (agentAt m role) input))
   \<and> (createAgentsFromSpecs specs = Inr m \<and> getAgentByRole c = agentAt m
        \<longrightarrow> isl (loop_body c task projectConfig flow w))"
proof (intro conjI impI)
  assume "createAgentsFromSpecs specs = Inr m \<and> getAgentByRole c = agentAt m"
  then have built: "createAgentsFromSpecs specs = Inr m" and reg: "getAgentByRole c = agentAt m"
    by simp_all
  show "isl (loop_body c task projectConfig flow w)"
  proof (cases "find (\<lambda>s. step_id s = currentStepId (w_state w)) (steps flow)")
    case None
    then show ?thesis by (simp add: loop_body_def)
  next
    case (Some step)
    let ?i = "\<lparr>in_task = task,
        in_artifacts = selectArtifactsForStep c step task (w_artifacts w),
        in_context = buildExecutionContext c projectConfig\<rparr>"
    from built_agent(4) [OF built, of "agentRole step" ?i]
    obtain e where "run (agentAt m (agentRole step)) ?i = Inl e"
      by (cases "run (agentAt m (agentRole step)) ?i") simp_all
    with Some reg show ?thesis by (simp add: loop_body_def Let_def)
  qed
qed (simp_all add: shipped_defs built_agent(4))

theorem shipped_agents_never_return_witness:
  "createAgentsFromSpecs demo_specs = Inr demo_registry
   \<and> getAgentByRole ((demo_collaborators D_completed InProgress)\<lparr>getAgentByRole := agentAt demo_registry\<rparr>)
       = agentAt demo_registry
   \<and> isl (run (agentAt demo_registry Coder)
        \<lparr>in_task = demo_task, in_artifacts = [],
         in_context = \<lparr>ctx_projectId = ''my-web-app'', ctx_projectConfig = demo_config\<rparr>\<rparr>)
   \<and> isl (loop_body ((demo_collaborators D_completed InProgress)\<lparr>getAgentByRole := agentAt demo_registry\<rparr>)
        demo_task demo_config (demo_flow D_completed) (demo_world InProgress []))"
  using shipped_agents_never_return
    [of "demo_spec ''coder''"
        "\<lparr>in_task = demo_task, in_artifacts = [],
          in_context = \<lparr>ctx_projectId = ''my-web-app'', ctx_projectConfig = demo_config\<rparr>\<rparr>"
        demo_specs demo_registry Coder
        "(demo_collaborators D_completed InProgress)\<lparr>getAgentByRole := agentAt demo_registry\<rparr>"
        demo_task demo_config "demo_flow D_completed" "demo_world InProgress []"]
    demo_registry_built
  by simp




text \<open>
  Claim C10. Every agent the factory builds has its \<open>id\<close> equal to its role's string, and
  \<open>makeRef\<close> returns exactly that id and role. Hence the references of two agents of one
  role are equal, whichever definitions they were built from, also for two agents of one
  class built directly by its constructor.
\<close>

theorem agent_id_is_role_string:
  "(createAgentsFromSpecs specs = Inr m \<longrightarrow>
      agent_id (agentAt m role) = role_string role \<and>
      makeRef (agentAt m role) = \<lparr>ref_id = role_string role, ref_role = role\<rparr>)
   \<and> (createAgentsFromSpecs specs = Inr m \<and> createAgentsFromSpecs specs' = Inr m' \<and>
        agent_role (agentAt m role) = agent_role (agentAt m' role')
      \<longrightarrow> makeRef (agentAt m role) = makeRef (agentAt m' role'))
   \<and> makeRef (OpsAgent spec) = \<lparr>ref_id = ''ops'', ref_role = Ops\<rparr>
   \<and> makeRef (OpsAgent spec) = makeRef (OpsAgent spec')"
proof (intro conjI impI)
  assume "createAgentsFromSpecs specs = Inr m"
  then show "agent_id (agentAt m role) = role_string role"
    and "makeRef (agentAt m role) = \<lparr>ref_id = role_string role, ref_role = role\<rparr>"
    by (simp_all add: makeRef_def built_agent)
next
  assume "createAgentsFromSpecs specs = Inr m \<and> createAgentsFromSpecs specs' = Inr m' \<and>
        agent_role (agentAt m role) = agent_role (agentAt m' role')"
  then have b: "createAgentsFromSpecs specs = Inr m" and b': "createAgentsFromSpecs specs' = Inr m'"
    and same: "agent_role (agentAt m role) = agent_role (agentAt m' role')"
    by simp_all
  from same have "role = role'"
    by (simp add: built_agent(2) [OF b] built_agent(2) [OF b'])
  then show "makeRef (agentAt m role) = makeRef (agentAt m' role')"
    by (simp add: makeRef_def built_agent(1,2) [OF b] built_agent(1,2) [OF b'])
qed (simp_all add: makeRef_def OpsAgent_def)

theorem agent_id_is_role_string_witness:
  "createAgentsFromSpecs demo_specs = Inr demo_registry
   \<and> agent_id (agentAt demo_registry Ops) = ''ops''
   \<and> makeRef (agentAt demo_registry Ops) = \<lparr>ref_id = ''ops'', ref_role = Ops\<rparr>
   \<and> makeRef (agentAt demo_registry Ops) = makeRef (OpsAgent (demo_spec ''another''))"
  using agent_id_is_role_string [of demo_specs demo_registry Ops demo_specs demo_registry Ops
      "demo_spec ''another''" "demo_spec ''ops''"]
    demo_registry_built
  by (simp add: demo_registry_def)

text \<open>
  Claim C6, as stated: every artifact's type tag is one of spec, design, patch, review,
  deployment, note, log. It fails: \<open>artifactType\<close> is a plain string, and the template's own
  list has the tags \<open>plan\<close> and \<open>pr\<close>. An artifact tagged \<open>plan\<close> is well formed and its tag
  is outside the seven.
\<close>

theorem artifact_type_closed_set_counterexample:
  "artifactType plan_artifact = ''plan''
   \<and> artifactType plan_artifact \<in> set template_artifact_types
   \<and> artifactType plan_artifact \<notin> set spec_artifact_types"
  by (simp add: plan_artifact_def template_artifact_types_def spec_artifact_types_def)

text \<open>
  Claim C6, amended. The type tag of an artifact is a string the code does not restrict:
  an artifact can carry any tag. The tags the template lists are nine, the seven of the
  claim together with \<open>plan\<close> and \<open>pr\<close>, which are not among the seven.
\<close>

theorem artifact_type_tags_of_the_template:
  "artifactType (a\<lparr>artifactType := tag\<rparr>) = tag
   \<and> set template_artifact_types = set spec_artifact_types \<union> {''plan'', ''pr''}
   \<and> ''plan'' \<notin> set spec_artifact_types
   \<and> ''pr'' \<notin> set spec_artifact_types
   \<and> length template_artifact_types = 9
   \<and> distinct template_artifact_types"
  by (simp add: template_artifact_types_def spec_artifact_types_def insert_commute)

section \<open>Properties of the orchestrator flow\<close>

lemmas demo_defs = demo_task_def demo_config_def demo_spec_def demo_review_def demo_agent_def
  demo_step_def demo_flow_def updateState_def demo_state_def demo_collaborators_def
  demo_world_def

lemma handleTask_loop_stops:
  "\<not> loop_guard (w_state w) \<Longrightarrow> handleTask_loop c task projectConfig flow fuel w = Some (Inr w)"
  by (cases fuel) simp_all

lemma handleTask_loop_last_iteration:
  assumes "loop_guard (w_state w)" "loop_body c task projectConfig flow w = Inr w'"
    "\<not> loop_guard (w_state w')"
  shows "handleTask_loop c task projectConfig flow (Suc fuel) w = Some (Inr w')"
proof -
  have "handleTask_loop c task projectConfig flow (Suc fuel) w =
      handleTask_loop c task projectConfig flow fuel w'"
    using assms(1,2) by simp
  with assms(3) show ?thesis by (simp add: handleTask_loop_stops)
qed

text \<open>What an iteration that succeeds has done: one decision, the one \<open>updateState\<close> got.\<close>

lemma loop_body_Inr:
  assumes "loop_body c task projectConfig flow w = Inr w'"
  shows "\<exists>d. w_decisions w' = w_decisions w @ [d] \<and> w_state w' = updateState (w_state w) d"
  using assms
  by (auto simp: loop_body_def Let_def split: option.splits sum.splits)

text \<open>
  Claim C2, as stated: once the status is completed or failed no further step executes. It
  fails for failed: the loop's guard stops on completed and waiting\_human only, and the
  template's decisions have no failed status. A run that is loaded as failed has its step
  executed: the worker is invoked and a transition is applied.
\<close>

theorem handleTask_failed_counterexample:
  "status (w_state (demo_world Failed [demo_review])) = Failed
   \<and> w_invocations (demo_world Failed [demo_review]) = []
   \<and> w_decisions (demo_world Failed [demo_review]) = []
   \<and> (case handleTask_loop (demo_collaborators D_blocked Failed) demo_task demo_config
             (demo_flow D_blocked) 3 (demo_world Failed [demo_review]) of
         Some (Inr w) \<Rightarrow> (status (w_state w), length (w_invocations w), w_decisions w)
       | _ \<Rightarrow> (Failed, 0, []))
      = (Completed, 1, [\<lparr>nextStepId = None, decision_status = D_completed\<rparr>])"
  by (simp add: demo_defs loop_guard_def loop_body_def eval_nat_numeral Let_def)

text \<open>
  Claim C2, amended. Once the status of the run is completed, the orchestrator loop
  executes no further step: with any fuel it returns the world it has, so no worker is
  invoked, no artifact appended and no transition applied after that point. This holds for
  a state found completed at the head of the loop, for the state an iteration has just
  made completed, and for \<open>handleTask\<close> on a task whose stored run is completed.
\<close>

theorem handleTask_completed_is_terminal:
  "(status (w_state w0) = Completed \<longrightarrow>
      handleTask_loop c task projectConfig flow fuel w0 = Some (Inr w0))
   \<and> (loop_guard (w_state w) \<and> loop_body c task projectConfig flow w = Inr w' \<and>
        status (w_state w') = Completed \<longrightarrow>
      handleTask_loop c task projectConfig flow (Suc fuel) w = Some (Inr w'))
   \<and> (loadTask c taskId = Inr task \<and> loadProjectConfig c (task_projectId task) = Inr projectConfig \<and>
        selectWorkflow c task projectConfig = Inr flow \<and>
        loadOrInitWorkflowState c taskId flow = Inr st \<and> status st = Completed \<longrightarrow>
      handleTask c fuel stored taskId =
        Some (Inr \<lparr>w_state = st, w_artifacts = stored, w_invocations = [], w_decisions = []\<rparr>))"
proof (intro conjI impI)
  assume "status (w_state w0) = Completed"
  then show "handleTask_loop c task projectConfig flow fuel w0 = Some (Inr w0)"
    by (simp add: handleTask_loop_stops loop_guard_def)
next
  assume "loop_guard (w_state w) \<and> loop_body c task projectConfig flow w = Inr w' \<and>
        status (w_state w') = Completed"
  then have "loop_guard (w_state w)" "loop_body c task projectConfig flow w = Inr w'"
    "\<not> loop_guard (w_state w')"
    by (simp_all add: loop_guard_def)
  then show "handleTask_loop c task projectConfig flow (Suc fuel) w = Some (Inr w')"
    by (rule handleTask_loop_last_iteration)
next
  assume "loadTask c taskId = Inr task \<and> loadProjectConfig c (task_projectId task) = Inr projectConfig \<and>
        selectWorkflow c task projectConfig = Inr flow \<and>
        loadOrInitWorkflowState c taskId flow = Inr st \<and> status st = Completed"
  then show "handleTask c fuel stored taskId =
        Some (Inr \<lparr>w_state = st, w_artifacts = stored, w_invocations = [], w_decisions = []\<rparr>)"
    by (simp add: handleTask_def handleTask_loop_stops loop_guard_def)
qed

theorem handleTask_completed_is_terminal_witness:
  "status (w_state (demo_world Completed [])) = Completed
   \<and> handleTask_loop (demo_collaborators D_blocked Completed) demo_task demo_config
        (demo_flow D_blocked) 7 (demo_world Completed []) = Some (Inr (demo_world Completed []))
   \<and> loop_guard (w_state (demo_world InProgress [demo_review]))
   \<and> loop_body (demo_collaborators D_blocked Completed) demo_task demo_config
        (demo_flow D_blocked) (demo_world InProgress [demo_review]) = Inr done_world
   \<and> status (w_state done_world) = Completed
   \<and> handleTask_loop (demo_collaborators D_blocked Completed) demo_task demo_config
        (demo_flow D_blocked) 8 (demo_world InProgress [demo_review]) = Some (Inr done_world)
   \<and> status (demo_state Completed) = Completed
   \<and> handleTask (demo_collaborators D_blocked Completed) 7 [] ''T-1'' =
        Some (Inr (demo_world Completed []))"
proof -
  have g: "loop_guard (w_state (demo_world InProgress [demo_review]))"
    by (simp add: demo_defs loop_guard_def)
  have b: "loop_body (demo_collaborators D_blocked Completed) demo_task demo_config
        (demo_flow D_blocked) (demo_world InProgress [demo_review]) = Inr done_world"
    by (simp add: demo_defs done_world_def loop_body_def Let_def)
  have s: "status (w_state done_world) = Completed"
    by (simp add: done_world_def demo_state_def)
  have l: "loadTask (demo_collaborators D_blocked Completed) ''T-1'' = Inr demo_task"
    "loadProjectConfig (demo_collaborators D_blocked Completed) (task_projectId demo_task) = Inr demo_config"
    "selectWorkflow (demo_collaborators D_blocked Completed) demo_task demo_config = Inr (demo_flow D_blocked)"
    "loadOrInitWorkflowState (demo_collaborators D_blocked Completed) ''T-1'' (demo_flow D_blocked)
       = Inr (demo_state Completed)"
    by (simp_all add: demo_collaborators_def)
  have c: "status (demo_state Completed) = Completed"
    "status (w_state (demo_world Completed [])) = Completed"
    by (simp_all add: demo_state_def demo_world_def)
  have e: "Suc 7 = 8" by simp
  from handleTask_completed_is_terminal
    [of "demo_world Completed []" "demo_collaborators D_blocked Completed" demo_task demo_config
        "demo_flow D_blocked" 7 "demo_world InProgress [demo_review]" done_world
        "''T-1''" "demo_state Completed" "[]"] g b s l c
  show ?thesis unfolding e by (simp add: demo_world_def)
qed

text \<open>
  Claim C3, as stated: a decision that carries waiting\_human or blocked halts the loop. It
  fails for blocked: the guard of the loop does not list it. A first decision carrying
  blocked is stored with that status, and the loop goes on to invoke the worker again and
  to apply a second decision.
\<close>

theorem handleTask_blocked_counterexample:
  "(case loop_body (demo_collaborators D_blocked InProgress) demo_task demo_config
           (demo_flow D_blocked) (demo_world InProgress []) of
      Inr w \<Rightarrow> (status (w_state w), map decision_status (w_decisions w))
    | Inl e \<Rightarrow> (Failed, []))
     = (Blocked, [D_blocked])
   \<and> (case handleTask_loop (demo_collaborators D_blocked InProgress) demo_task demo_config
             (demo_flow D_blocked) 3 (demo_world InProgress []) of
         Some (Inr w) \<Rightarrow>
           (status (w_state w), length (w_invocations w), map decision_status (w_decisions w))
       | _ \<Rightarrow> (Failed, 0, []))
      = (Completed, 2, [D_blocked, D_completed])"
  by (simp add: demo_defs loop_guard_def loop_body_def eval_nat_numeral Let_def)

text \<open>
  Claim C3, amended. For every iteration of the orchestrator loop, if the step's transition
  decision carries waiting\_human, the run state is persisted with that status and the
  loop halts: it returns the world of that iteration and, with any fuel, no further
  iteration follows from it. The decision of an iteration is the last of the decisions
  applied.
\<close>

theorem handleTask_halts_on_waiting_human:
  "loop_guard (w_state w) \<and> loop_body c task projectConfig flow w = Inr w' \<and>
   decision_status (last (w_decisions w')) = D_waiting_human \<longrightarrow>
     status (w_state w') = WaitingHuman \<and>
     w_state w' = updateState (w_state w) (last (w_decisions w')) \<and>
     handleTask_loop c task projectConfig flow (Suc fuel) w = Some (Inr w') \<and>
     handleTask_loop c task projectConfig flow fuel' w' = Some (Inr w')"
proof (intro impI)
  assume a: "loop_guard (w_state w) \<and> loop_body c task projectConfig flow w = Inr w' \<and>
   decision_status (last (w_decisions w')) = D_waiting_human"
  with loop_body_Inr [of c task projectConfig flow w w']
  have upd: "w_state w' = updateState (w_state w) (last (w_decisions w'))" by auto
  with a have held: "status (w_state w') = WaitingHuman"
    by (simp add: updateState_def)
  then have stop: "\<not> loop_guard (w_state w')" by (simp add: loop_guard_def)
  from a stop have "handleTask_loop c task projectConfig flow (Suc fuel) w = Some (Inr w')"
    by (intro handleTask_loop_last_iteration) simp_all
  moreover from stop have "handleTask_loop c task projectConfig flow fuel' w' = Some (Inr w')"
    by (rule handleTask_loop_stops)
  ultimately show "status (w_state w') = WaitingHuman \<and>
     w_state w' = updateState (w_state w) (last (w_decisions w')) \<and>
     handleTask_loop c task projectConfig flow (Suc fuel) w = Some (Inr w') \<and>
     handleTask_loop c task projectConfig flow fuel' w' = Some (Inr w')"
    using upd held by simp
qed

theorem handleTask_halts_on_waiting_human_witness:
  "loop_guard (w_state (demo_world InProgress []))
   \<and> loop_body (demo_collaborators D_waiting_human InProgress) demo_task demo_config
        (demo_flow D_waiting_human) (demo_world InProgress []) = Inr held_world
   \<and> decision_status (last (w_decisions held_world)) = D_waiting_human
   \<and> status (w_state held_world) = WaitingHuman
   \<and> handleTask_loop (demo_collaborators D_waiting_human InProgress) demo_task demo_config
        (demo_flow D_waiting_human) (Suc 0) (demo_world InProgress []) = Some (Inr held_world)
   \<and> handleTask_loop (demo_collaborators D_waiting_human InProgress) demo_task demo_config
        (demo_flow D_waiting_human) 9 held_world = Some (Inr held_world)"
proof -
  have g: "loop_guard (w_state (demo_world InProgress []))"
    by (simp add: demo_defs loop_guard_def)
  have b: "loop_body (demo_collaborators D_waiting_human InProgress) demo_task demo_config
        (demo_flow D_waiting_human) (demo_world InProgress []) = Inr held_world"
    by (simp add: demo_defs held_world_def loop_body_def Let_def)
  have d: "decision_status (last (w_decisions held_world)) = D_waiting_human"
    by (simp add: held_world_def)
  from handleTask_halts_on_waiting_human
    [of "demo_world InProgress []" "demo_collaborators D_waiting_human InProgress" demo_task
        demo_config "demo_flow D_waiting_human" held_world 0 9] g b d
  have "status (w_state held_world) = WaitingHuman"
    and "handleTask_loop (demo_collaborators D_waiting_human InProgress) demo_task demo_config
        (demo_flow D_waiting_human) (Suc 0) (demo_world InProgress []) = Some (Inr held_world)"
    and "handleTask_loop (demo_collaborators D_waiting_human InProgress) demo_task demo_config
        (demo_flow D_waiting_human) 9 held_world = Some (Inr held_world)"
    by blast+
  with g b d show ?thesis by simp
qed

section \<open>Properties of the workflow engine of the specification\<close>



lemma retries_record_entry [simp]: "retries (record_entry now oc s) = retries s"
  by (simp add: record_entry_def)

lemma status_record_entry [simp]: "status (record_entry now oc s) = status s"
  by (simp add: record_entry_def)

lemma currentStepId_record_entry [simp]: "currentStepId (record_entry now oc s) = currentStepId s"
  by (simp add: record_entry_def)












lemma engine_step_fault_status:
  assumes "engine_step wd now (Fault k) s = Inr s'"
  shows "status s' = InProgress \<or> status s' = WaitingHuman"
  using assms by (auto simp: engine_step_def retry_or_escalate_def Let_def split: option.splits if_splits)





lemmas scenario_defs = worker_says_def scenario_transition_def scenario_step_def
  bugfix_fast_flow_def scenario_state_def exhausted_state_def escalated_state_def
  retried_state_def gives_up_def

lemmas engine_defs = engine_step_def lookup_step_def apply_decision_def unknown_handoff_def
  handoff_role_def record_entry_def retry_or_escalate_def loop_guard_def

text \<open>
  The scenarios of the specification, run on the model. A: continue, continue, done ends
  completed with three history entries. B: three timeouts at a maximum of 2 end in
  waiting\_human with the counter at 2, two retry entries and one escalation entry, and the
  fourth result is left unconsumed.
\<close>

lemma scenario_A:
  "map_sum id (\<lambda>r. (status (fst r), map h_outcome (history (fst r)), currentStepId (fst r), snd r))
     (run_engine bugfix_fast_flow
        [(1, Output (worker_says Continue None)), (2, Output (worker_says Continue None)),
         (3, Output (worker_says Done None))] (scenario_state ''plan''))
   = Inr (Completed, [Advanced, Advanced, Finished], ''review'', [])"
  by (simp add: scenario_defs engine_defs)








section \<open>Properties of the router of the specification\<close>

lemma matching_empty:
  "matching task defs = [] \<longleftrightarrow> (\<forall>d \<in> set defs. task_type task \<notin> set (wd_taskTypes d))"
  by (auto simp: matching_def filter_empty_conv)

lemma least_id_mem: "least_id d xs \<in> set (d # xs)"
  by (induction xs arbitrary: d) (auto split: if_splits)

lemma selectWorkflow_spec_Inl:
  "selectWorkflow_spec preferred task defs = Inl e \<longleftrightarrow> e = NoMatchingWorkflow \<and> matching task defs = []"
  by (auto simp: selectWorkflow_spec_def split: list.splits option.splits)

lemma selectWorkflow_spec_Inr:
  assumes "selectWorkflow_spec preferred task defs = Inr d"
  shows "d \<in> set (matching task defs)"
proof -
  from assms obtain m ms where ms: "matching task defs = m # ms"
    by (auto simp: selectWorkflow_spec_def split: list.splits)
  have "least_id m ms \<in> set (m # ms)" by (rule least_id_mem)
  moreover have "x \<in> set (m # ms)" if "find (\<lambda>d. wd_id d = wid) (m # ms) = Some x" for x wid
    using that unfolding find_Some_iff by (metis nth_mem)
  ultimately show ?thesis using assms ms
    by (auto simp: selectWorkflow_spec_def split: option.splits if_splits)
qed

lemma orchestrate_no_match:
  "matching task defs = [] \<Longrightarrow>
     orchestrate preferred defs evs task store = (Inl NoMatchingWorkflow, store)"
  by (simp add: orchestrate_def selectWorkflow_spec_def)

text \<open>
  Claim C8. \<open>selectWorkflow\<close> fails with NoMatchingWorkflow exactly when no available
  definition's task types contain the task's type, and it fails with nothing else. In that
  case the orchestrator returns the error to its caller and leaves the run state store as
  it was: no RunState is created. When it succeeds, the definition returned is one of the
  available ones and its task types contain the task's type: no default stands in.
\<close>

theorem selectWorkflow_fails_exactly_without_match:
  "(selectWorkflow_spec preferred task defs = Inl NoMatchingWorkflow
      \<longleftrightarrow> (\<forall>d \<in> set defs. task_type task \<notin> set (wd_taskTypes d)))
   \<and> (selectWorkflow_spec preferred task defs = Inl e
      \<longrightarrow> e = NoMatchingWorkflow \<and>
          orchestrate preferred defs evs task store = (Inl NoMatchingWorkflow, store) \<and>
          load (task_id task) (snd (orchestrate preferred defs evs task store))
            = load (task_id task) store)
   \<and> (selectWorkflow_spec preferred' task' defs' = Inr d
      \<longrightarrow> d \<in> set defs' \<and> task_type task' \<in> set (wd_taskTypes d))"
proof (intro conjI impI)
  show "selectWorkflow_spec preferred task defs = Inl NoMatchingWorkflow
      \<longleftrightarrow> (\<forall>d \<in> set defs. task_type task \<notin> set (wd_taskTypes d))"
    by (simp add: selectWorkflow_spec_Inl matching_empty)
next
  assume "selectWorkflow_spec preferred task defs = Inl e"
  then show "e = NoMatchingWorkflow" by (simp add: selectWorkflow_spec_Inl)
next
  assume "selectWorkflow_spec preferred task defs = Inl e"
  then show "orchestrate preferred defs evs task store = (Inl NoMatchingWorkflow, store)"
    by (simp add: selectWorkflow_spec_Inl orchestrate_no_match)
next
  assume "selectWorkflow_spec preferred task defs = Inl e"
  then show "load (task_id task) (snd (orchestrate preferred defs evs task store))
            = load (task_id task) store"
    by (simp add: selectWorkflow_spec_Inl orchestrate_no_match)
next
  assume "selectWorkflow_spec preferred' task' defs' = Inr d"
  from selectWorkflow_spec_Inr [OF this]
  show "d \<in> set defs'" "task_type task' \<in> set (wd_taskTypes d)"
    by (simp_all add: matching_def)
qed

theorem selectWorkflow_fails_exactly_without_match_witness:
  "task_type docs_task \<notin> set (wd_taskTypes bugfix_fast_flow)
   \<and> selectWorkflow_spec Map.empty docs_task [bugfix_fast_flow] = Inl NoMatchingWorkflow
   \<and> orchestrate Map.empty [bugfix_fast_flow] [(1, Output (worker_says Done None))] docs_task Map.empty
       = (Inl NoMatchingWorkflow, Map.empty)
   \<and> load (task_id docs_task) Map.empty = None
   \<and> selectWorkflow_spec Map.empty demo_task [bugfix_fast_flow] = Inr bugfix_fast_flow
   \<and> task_type demo_task \<in> set (wd_taskTypes bugfix_fast_flow)"
proof -
  have none: "\<forall>d \<in> set [bugfix_fast_flow]. task_type docs_task \<notin> set (wd_taskTypes d)"
    by (simp add: docs_task_def bugfix_fast_flow_def)
  have hit: "selectWorkflow_spec Map.empty demo_task [bugfix_fast_flow] = Inr bugfix_fast_flow"
    by (simp add: selectWorkflow_spec_def matching_def demo_task_def bugfix_fast_flow_def)
  note router = selectWorkflow_fails_exactly_without_match
    [of Map.empty docs_task "[bugfix_fast_flow]" NoMatchingWorkflow
        "[(1, Output (worker_says Done None))]" Map.empty Map.empty demo_task "[bugfix_fast_flow]"
        bugfix_fast_flow]
  from router none have miss: "selectWorkflow_spec Map.empty docs_task [bugfix_fast_flow] = Inl NoMatchingWorkflow"
    by blast
  with router have "orchestrate Map.empty [bugfix_fast_flow] [(1, Output (worker_says Done None))]
       docs_task Map.empty = (Inl NoMatchingWorkflow, Map.empty)"
    by blast
  moreover from router hit have "task_type demo_task \<in> set (wd_taskTypes bugfix_fast_flow)"
    by blast
  moreover have "task_type docs_task \<notin> set (wd_taskTypes bugfix_fast_flow)"
    using none by simp
  ultimately show ?thesis using miss hit by (simp add: load_def)
qed

section \<open>Properties of the artifact store of the specification\<close>

lemma stage_writes_ok:
  "list_all (\<lambda>a. art_taskId a = taskId \<and> writable a) arts
     \<Longrightarrow> stage_writes writable taskId staged arts = Inr (staged @ arts)"
  by (induction arts arbitrary: staged) simp_all

lemma stage_writes_fails:
  "\<not> list_all (\<lambda>a. art_taskId a = taskId \<and> writable a) arts
     \<Longrightarrow> \<exists>n. stage_writes writable taskId staged arts = Inl (AppendFailed n) \<and>
            length staged \<le> n \<and> n < length staged + length arts"
proof (induction arts arbitrary: staged)
  case Nil
  then show ?case by simp
next
  case (Cons a arts)
  show ?case
  proof (cases "art_taskId a = taskId \<and> writable a")
    case True
    with Cons.prems have "\<not> list_all (\<lambda>a. art_taskId a = taskId \<and> writable a) arts" by simp
    from Cons.IH [OF this, of "staged @ [a]"] True show ?thesis by auto
  next
    case False
    then show ?thesis by auto
  qed
qed

text \<open>The listing is ordered by creation time; the latest of a type breaks ties by identifier.\<close>

lemma listByTask_sorted: "sorted (map createdAt (listByTask taskId store))"
  by (simp add: listByTask_def)

lemma listByTask_demo:
  "listByTask ''T-1'' [plan_artifact, demo_review] = [demo_review, plan_artifact]
   \<and> latestOfType ''T-1'' ''review'' [plan_artifact, demo_review] = Some demo_review
   \<and> latestOfType ''T-1'' ''design'' [plan_artifact, demo_review] = None"
  by (simp add: listByTask_def latestOfType_def plan_artifact_def demo_review_def
      less_eq_char_def less_char_def)

text \<open>
  Claim C9. An append is all or nothing. When every write of the batch succeeds, the store
  gains the whole batch and every artifact of it is listed for the task afterwards. When a
  write fails, at whatever position, the call reports the failure and the store is the one
  before the call: the artifacts staged before the failure are not there, and every
  \<open>listByTask\<close> and \<open>latestOfType\<close> read gives what it gave before.
\<close>

theorem store_append_all_or_nothing:
  "(list_all (\<lambda>a. art_taskId a = taskId \<and> writable a) arts \<longrightarrow>
      store_append writable taskId arts store = (Inr (), store @ arts) \<and>
      set (listByTask taskId (snd (store_append writable taskId arts store)))
        = set (listByTask taskId store) \<union> set arts \<and>
      length (listByTask taskId (snd (store_append writable taskId arts store)))
        = length (listByTask taskId store) + length arts)
   \<and> (\<not> list_all (\<lambda>a. art_taskId a = taskId \<and> writable a) batch \<longrightarrow>
      (\<exists>n < length batch. store_append writable taskId batch store = (Inl (AppendFailed n), store)) \<and>
      listByTask t (snd (store_append writable taskId batch store)) = listByTask t store \<and>
      latestOfType t ty (snd (store_append writable taskId batch store)) = latestOfType t ty store)"
proof (intro conjI impI)
  assume ok: "list_all (\<lambda>a. art_taskId a = taskId \<and> writable a) arts"
  then show all: "store_append writable taskId arts store = (Inr (), store @ arts)"
    by (simp add: store_append_def stage_writes_ok)
  from ok have same: "filter (\<lambda>a. art_taskId a = taskId) arts = arts"
    by (simp add: list_all_iff)
  show "set (listByTask taskId (snd (store_append writable taskId arts store)))
        = set (listByTask taskId store) \<union> set arts"
    unfolding all by (simp add: listByTask_def same)
  show "length (listByTask taskId (snd (store_append writable taskId arts store)))
        = length (listByTask taskId store) + length arts"
    unfolding all by (simp add: listByTask_def same)
next
  assume bad: "\<not> list_all (\<lambda>a. art_taskId a = taskId \<and> writable a) batch"
  from stage_writes_fails [OF this, of "[]"]
  obtain n where n: "n < length batch"
    "store_append writable taskId batch store = (Inl (AppendFailed n), store)"
    by (auto simp: store_append_def)
  then show "\<exists>n < length batch. store_append writable taskId batch store = (Inl (AppendFailed n), store)"
    by blast
  show "listByTask t (snd (store_append writable taskId batch store)) = listByTask t store"
    by (simp add: n(2))
  show "latestOfType t ty (snd (store_append writable taskId batch store)) = latestOfType t ty store"
    by (simp add: n(2))
qed

theorem store_append_all_or_nothing_witness:
  "list_all (\<lambda>a. art_taskId a = ''T-1'' \<and> refuses_plan a) [demo_review]
   \<and> store_append refuses_plan ''T-1'' [demo_review] [] = (Inr (), [demo_review])
   \<and> \<not> list_all (\<lambda>a. art_taskId a = ''T-1'' \<and> refuses_plan a) [demo_review, plan_artifact]
   \<and> store_append refuses_plan ''T-1'' [demo_review, plan_artifact] [] = (Inl (AppendFailed 1), [])
   \<and> listByTask ''T-1'' (snd (store_append refuses_plan ''T-1'' [demo_review, plan_artifact] []))
       = listByTask ''T-1'' []
   \<and> latestOfType ''T-1'' ''review''
        (snd (store_append refuses_plan ''T-1'' [demo_review, plan_artifact] [])) = None"
proof -
  have ok: "list_all (\<lambda>a. art_taskId a = ''T-1'' \<and> refuses_plan a) [demo_review]"
    by (simp add: demo_review_def refuses_plan_def)
  have bad: "\<not> list_all (\<lambda>a. art_taskId a = ''T-1'' \<and> refuses_plan a) [demo_review, plan_artifact]"
    by (simp add: plan_artifact_def refuses_plan_def)
  have staged: "store_append refuses_plan ''T-1'' [demo_review, plan_artifact] [] = (Inl (AppendFailed 1), [])"
    by (simp add: store_append_def demo_review_def plan_artifact_def refuses_plan_def)
  have empty: "latestOfType ''T-1'' ''review'' [] = None"
    by (simp add: latestOfType_def listByTask_def)
  from store_append_all_or_nothing
    [of "''T-1''" refuses_plan "[demo_review]" "[]" "[demo_review, plan_artifact]" "''T-1''" "''review''"]
    ok bad
  have "store_append refuses_plan ''T-1'' [demo_review] [] = (Inr (), [demo_review])"
    and "listByTask ''T-1'' (snd (store_append refuses_plan ''T-1'' [demo_review, plan_artifact] []))
       = listByTask ''T-1'' []"
    and "latestOfType ''T-1'' ''review''
        (snd (store_append refuses_plan ''T-1'' [demo_review, plan_artifact] [])) = latestOfType ''T-1'' ''review'' []"
    by simp_all
  with ok bad staged empty show ?thesis by simp
qed

end
